theory Spec2Isabelle
  imports Complex_Main
begin

section \<open>User management API: data model\<close>

text \<open>
  The server keeps user records in a key-value store (\<^verbatim>\<open>usersRef\<close>), keyed by the
  identifier generated at creation. A record is the object literal \<^verbatim>\<open>userData\<close> of the
  POST handler. Coordinates are only copied from the geocoding response into the record
  and into the second request; the program never computes with them, so a number stands
  for the value it denotes. A timestamp is the text of \<^verbatim>\<open>new Date().toISOString()\<close>.
\<close>

type_synonym instant = string

record user =
  id_user :: string
  name :: string
  zipCode :: string
  country :: string
  lat :: rat
  lon :: rat
  timezone :: string
  createdAt :: instant
  updatedAt :: instant

type_synonym store = "string \<rightharpoonup> user"

text \<open>
  The JSON body of a POST or PUT request, after \<^verbatim>\<open>const { name, zipCode, country } = req.body\<close>:
  each property is a string, as in the data model, or is missing (\<^verbatim>\<open>undefined\<close>). The
  handlers only test these values for truthiness and compare them with \<^verbatim>\<open>!==\<close>.
\<close>

record req_body =
  body_name :: "string option"
  body_zipCode :: "string option"
  body_country :: "string option"

text \<open>The \<^verbatim>\<open>data\<close> of the geocoding response, and the object \<^verbatim>\<open>getLocationData\<close> returns.\<close>

record geo_data =
  geo_name :: string
  geo_lat :: rat
  geo_lon :: rat
  geo_country :: string

record location =
  loc_name :: string
  loc_lat :: rat
  loc_lon :: rat
  loc_country :: string
  loc_timezone :: string

text \<open>
  The object \<^verbatim>\<open>updates\<close> of the PUT handler. It always has \<^verbatim>\<open>name\<close> and
  \<^verbatim>\<open>updatedAt\<close>; the other five keys exist only after \<^verbatim>\<open>Object.assign\<close>.
\<close>

record updates =
  upd_name :: string
  upd_updatedAt :: instant
  upd_zipCode :: "string option"
  upd_lat :: "rat option"
  upd_lon :: "rat option"
  upd_timezone :: "string option"
  upd_country :: "string option"

datatype resp_body =
    ErrorBody string "string option"
  | UserBody user
  | UpdatedBody string updates
  | MessageBody string
  | UsersBody store

datatype response = Response (status: nat) (json: resp_body)

datatype db_write =
    Set string user
  | Update string updates
  | Remove string

text \<open>
  What the outside world answers during one request. An \<^verbatim>\<open>await\<close> that rejects is
  \<open>Inl\<close> (or \<open>Some\<close>) of the error's message; reading a property of a response without
  data throws inside the same \<^verbatim>\<open>try\<close> and is the same case.
  \<^item> \<open>geo_get z c\<close>: the request to \<^verbatim>\<open>/geo/1.0/zip\<close>;
  \<^item> \<open>weather_get lat lon\<close>: the request to \<^verbatim>\<open>/data/2.5/weather\<close>, giving \<^verbatim>\<open>data.timezone\<close>;
  \<^item> \<open>push_key\<close>: the key of \<^verbatim>\<open>usersRef.push()\<close>;
  \<^item> \<open>now k\<close>: the \<open>k\<close>-th reading of the clock in the handler;
  \<^item> \<open>once_fault\<close>: the rejection of \<^verbatim>\<open>once("value")\<close>, if it rejects;
  \<^item> \<open>write_fault\<close>: the rejection of \<^verbatim>\<open>set\<close>, \<^verbatim>\<open>update\<close> or \<^verbatim>\<open>remove\<close>, if it rejects.
  A write that rejects leaves the store as it was: the store applies \<^verbatim>\<open>set\<close>,
  \<^verbatim>\<open>update\<close> and \<^verbatim>\<open>remove\<close> as one step each.
\<close>

record env =
  geo_get :: "string \<Rightarrow> string \<Rightarrow> string + geo_data"
  weather_get :: "rat \<Rightarrow> rat \<Rightarrow> string + string"
  push_key :: string
  now :: "nat \<Rightarrow> instant"
  once_fault :: "string option"
  write_fault :: "string option"

text \<open>
  The result of a handler: the HTTP response, the store afterwards, the calls of
  \<^verbatim>\<open>getLocationData\<close> it made (zip code and country passed), and the writes it sent
  to the store.
\<close>

record outcome =
  response :: response
  store_after :: store
  resolver_calls :: "(string \<times> string) list"
  store_writes :: "db_write list"

section \<open>The handlers\<close>

text \<open>JavaScript truthiness of a string property: missing and the empty string are falsy.\<close>

definition truthy :: "string option \<Rightarrow> bool" where
  "truthy v = (case v of None \<Rightarrow> False | Some s \<Rightarrow> s \<noteq> [])"

text \<open>The default of the destructuring pattern and of the parameter: \<^verbatim>\<open>country = "US"\<close>.\<close>

definition default_US :: "string option \<Rightarrow> string" where
  "default_US c = (case c of None \<Rightarrow> ''US'' | Some s \<Rightarrow> s)"

text \<open>
  \<^verbatim>\<open>getLocationData(zipCode, country = "US")\<close>: two requests in sequence; whatever is
  thrown in the \<^verbatim>\<open>try\<close> block is caught, its message written to the console, and a new
  error with a fixed message is thrown.
\<close>

definition getLocationData :: "env \<Rightarrow> string \<Rightarrow> string option \<Rightarrow> string + location" where
  "getLocationData e zip_in country_arg =
     (case geo_get e zip_in (default_US country_arg) of
        Inl err \<Rightarrow> Inl ''Failed to fetch location data''
      | Inr g \<Rightarrow>
          (case weather_get e (geo_lat g) (geo_lon g) of
             Inl err \<Rightarrow> Inl ''Failed to fetch location data''
           | Inr tz \<Rightarrow>
               Inr \<lparr>loc_name = geo_name g, loc_lat = geo_lat g, loc_lon = geo_lon g,
                    loc_country = geo_country g, loc_timezone = tz\<rparr>))"

text \<open>\<^verbatim>\<open>app.post("/users")\<close>\<close>

definition post_users :: "env \<Rightarrow> store \<Rightarrow> req_body \<Rightarrow> outcome" where
  "post_users e db b =
     (let country_in = default_US (body_country b) in
      if \<not> truthy (body_name b) \<or> \<not> truthy (body_zipCode b) then
        \<lparr>response = Response 400 (ErrorBody ''Name and zipCode are required'' None),
         store_after = db, resolver_calls = [], store_writes = []\<rparr>
      else
        let nm = the (body_name b); zip_in = the (body_zipCode b) in
        case getLocationData e zip_in (Some country_in) of
          Inl msg \<Rightarrow>
            \<lparr>response = Response 500 (ErrorBody msg
               (Some ''Failed to create user. Please check the zip code and try again.'')),
             store_after = db, resolver_calls = [(zip_in, country_in)], store_writes = []\<rparr>
        | Inr loc \<Rightarrow>
            let userData = \<lparr>id_user = push_key e, name = nm, zipCode = zip_in,
                             country = loc_country loc, lat = loc_lat loc, lon = loc_lon loc,
                             timezone = loc_timezone loc,
                             createdAt = now e 0, updatedAt = now e 1\<rparr> in
            (case write_fault e of
               Some msg \<Rightarrow>
                 \<lparr>response = Response 500 (ErrorBody msg
                    (Some ''Failed to create user. Please check the zip code and try again.'')),
                  store_after = db, resolver_calls = [(zip_in, country_in)],
                  store_writes = [Set (push_key e) userData]\<rparr>
             | None \<Rightarrow>
                 \<lparr>response = Response 201 (UserBody userData),
                  store_after = db(push_key e \<mapsto> userData),
                  resolver_calls = [(zip_in, country_in)],
                  store_writes = [Set (push_key e) userData]\<rparr>))"

text \<open>\<^verbatim>\<open>userRef.update(updates)\<close> on a stored record: the keys of \<^verbatim>\<open>updates\<close> overwrite, the others stay.\<close>

definition apply_updates :: "updates \<Rightarrow> user \<Rightarrow> user" where
  "apply_updates u r =
     r\<lparr>name := upd_name u,
       updatedAt := upd_updatedAt u,
       zipCode := (case upd_zipCode u of None \<Rightarrow> zipCode r | Some v \<Rightarrow> v),
       lat := (case upd_lat u of None \<Rightarrow> lat r | Some v \<Rightarrow> v),
       lon := (case upd_lon u of None \<Rightarrow> lon r | Some v \<Rightarrow> v),
       timezone := (case upd_timezone u of None \<Rightarrow> timezone r | Some v \<Rightarrow> v),
       country := (case upd_country u of None \<Rightarrow> country r | Some v \<Rightarrow> v)\<rparr>"

text \<open>The last two steps of the PUT handler: the write, then the answer.\<close>

definition put_write :: "env \<Rightarrow> store \<Rightarrow> string \<Rightarrow> user \<Rightarrow> updates \<Rightarrow> (string \<times> string) list \<Rightarrow> outcome" where
  "put_write e db uid currentUser u calls =
     (case write_fault e of
        Some msg \<Rightarrow>
          \<lparr>response = Response 500 (ErrorBody msg
             (Some ''Failed to update user. Please check your input.'')),
           store_after = db, resolver_calls = calls, store_writes = [Update uid u]\<rparr>
      | None \<Rightarrow>
          \<lparr>response = Response 200 (UpdatedBody ''User updated successfully'' u),
           store_after = db(uid \<mapsto> apply_updates u currentUser),
           resolver_calls = calls, store_writes = [Update uid u]\<rparr>)"

text \<open>\<^verbatim>\<open>app.put("/users/:id")\<close>\<close>

definition put_users :: "env \<Rightarrow> store \<Rightarrow> string \<Rightarrow> req_body \<Rightarrow> outcome" where
  "put_users e db uid b =
     (let country_in = default_US (body_country b) in
      case once_fault e of
        Some msg \<Rightarrow>
          \<lparr>response = Response 500 (ErrorBody msg
             (Some ''Failed to update user. Please check your input.'')),
           store_after = db, resolver_calls = [], store_writes = []\<rparr>
      | None \<Rightarrow>
          (case db uid of
             None \<Rightarrow>
               \<lparr>response = Response 404 (ErrorBody ''User not found'' None),
                store_after = db, resolver_calls = [], store_writes = []\<rparr>
           | Some currentUser \<Rightarrow>
               let u = \<lparr>upd_name = (if truthy (body_name b) then the (body_name b)
                                      else name currentUser),
                        upd_updatedAt = now e 0,
                        upd_zipCode = None, upd_lat = None, upd_lon = None,
                        upd_timezone = None, upd_country = None\<rparr> in
               if truthy (body_zipCode b) \<and> the (body_zipCode b) \<noteq> zipCode currentUser then
                 let zip_in = the (body_zipCode b) in
                 (case getLocationData e zip_in (Some country_in) of
                    Inl msg \<Rightarrow>
                      \<lparr>response = Response 500 (ErrorBody msg
                         (Some ''Failed to update user. Please check your input.'')),
                       store_after = db, resolver_calls = [(zip_in, country_in)],
                       store_writes = []\<rparr>
                  | Inr loc \<Rightarrow>
                      put_write e db uid currentUser
                        (u\<lparr>upd_zipCode := Some zip_in, upd_lat := Some (loc_lat loc),
                           upd_lon := Some (loc_lon loc),
                           upd_timezone := Some (loc_timezone loc),
                           upd_country := Some (loc_country loc)\<rparr>)
                        [(zip_in, country_in)])
               else put_write e db uid currentUser u []))"

text \<open>\<^verbatim>\<open>app.get("/users")\<close> and \<^verbatim>\<open>app.get("/users/:id")\<close>\<close>

definition get_users :: "env \<Rightarrow> store \<Rightarrow> outcome" where
  "get_users e db =
     (case once_fault e of
        Some msg \<Rightarrow>
          \<lparr>response = Response 500 (ErrorBody msg None),
           store_after = db, resolver_calls = [], store_writes = []\<rparr>
      | None \<Rightarrow>
          \<lparr>response = Response 200 (UsersBody db),
           store_after = db, resolver_calls = [], store_writes = []\<rparr>)"

definition get_user :: "env \<Rightarrow> store \<Rightarrow> string \<Rightarrow> outcome" where
  "get_user e db uid =
     (case once_fault e of
        Some msg \<Rightarrow>
          \<lparr>response = Response 500 (ErrorBody msg None),
           store_after = db, resolver_calls = [], store_writes = []\<rparr>
      | None \<Rightarrow>
          (case db uid of
             None \<Rightarrow>
               \<lparr>response = Response 404 (ErrorBody ''User not found'' None),
                store_after = db, resolver_calls = [], store_writes = []\<rparr>
           | Some r \<Rightarrow>
               \<lparr>response = Response 200 (UserBody r),
                store_after = db, resolver_calls = [], store_writes = []\<rparr>))"

text \<open>\<^verbatim>\<open>app.delete("/users/:id")\<close>\<close>

definition delete_users :: "env \<Rightarrow> store \<Rightarrow> string \<Rightarrow> outcome" where
  "delete_users e db uid =
     (case once_fault e of
        Some msg \<Rightarrow>
          \<lparr>response = Response 500 (ErrorBody msg None),
           store_after = db, resolver_calls = [], store_writes = []\<rparr>
      | None \<Rightarrow>
          (case db uid of
             None \<Rightarrow>
               \<lparr>response = Response 404 (ErrorBody ''User not found'' None),
                store_after = db, resolver_calls = [], store_writes = []\<rparr>
           | Some r \<Rightarrow>
               (case write_fault e of
                  Some msg \<Rightarrow>
                    \<lparr>response = Response 500 (ErrorBody msg None),
                     store_after = db, resolver_calls = [], store_writes = [Remove uid]\<rparr>
                | None \<Rightarrow>
                    \<lparr>response = Response 200 (MessageBody ''User deleted successfully''),
                     store_after = db(uid := None), resolver_calls = [],
                     store_writes = [Remove uid]\<rparr>)))"

section \<open>Sequences of requests\<close>

text \<open>
  A state of the system is the store together with a history of the resolver calls made
  so far, newest first. The history is a ghost variable: the program does not keep it. Each
  entry names the record the call was made for (the key of the record being created or
  updated), the zip code and country passed, and what \<^verbatim>\<open>getLocationData\<close> returned.
\<close>

record resolution =
  res_for :: string
  res_zipCode :: string
  res_country :: string
  res_result :: "string + location"

record state =
  users :: store
  resolutions :: "resolution list"

datatype request =
    Create req_body
  | Put string req_body
  | Delete string

definition record_calls :: "env \<Rightarrow> string \<Rightarrow> (string \<times> string) list \<Rightarrow> resolution list" where
  "record_calls e uid calls =
     map (\<lambda>(z, c). \<lparr>res_for = uid, res_zipCode = z, res_country = c,
                     res_result = getLocationData e z (Some c)\<rparr>) calls"

fun step :: "env \<Rightarrow> request \<Rightarrow> state \<Rightarrow> state" where
  "step e (Create b) s =
     (let out = post_users e (users s) b in
      \<lparr>users = store_after out,
       resolutions = record_calls e (push_key e) (resolver_calls out) @ resolutions s\<rparr>)"
| "step e (Put uid b) s =
     (let out = put_users e (users s) uid b in
      \<lparr>users = store_after out,
       resolutions = record_calls e uid (resolver_calls out) @ resolutions s\<rparr>)"
| "step e (Delete uid) s =
     (let out = delete_users e (users s) uid in
      \<lparr>users = store_after out, resolutions = resolutions s\<rparr>)"

text \<open>\<^verbatim>\<open>usersRef.push()\<close> generates a key that no stored record has.\<close>

fun fresh_key :: "env \<Rightarrow> request \<Rightarrow> state \<Rightarrow> bool" where
  "fresh_key e (Create b) s = (users s (push_key e) = None)"
| "fresh_key e (Put uid b) s = True"
| "fresh_key e (Delete uid) s = True"

definition init :: state where
  "init = \<lparr>users = Map.empty, resolutions = []\<rparr>"

text \<open>
  The states reachable from the empty store. Every request has its own environment: the
  resolver may answer differently from one request to the next.
\<close>

inductive reachable :: "state \<Rightarrow> bool" where
  reachable_init: "reachable init"
| reachable_step: "reachable s \<Longrightarrow> fresh_key e req s \<Longrightarrow> reachable (step e req s)"

text \<open>The newest resolution made for record \<open>uid\<close> with zip code \<open>z\<close>.\<close>

definition last_resolution :: "resolution list \<Rightarrow> string \<Rightarrow> string \<Rightarrow> resolution option" where
  "last_resolution hist uid z = find (\<lambda>x. res_for x = uid \<and> res_zipCode x = z) hist"

text \<open>All resolutions whose inputs were the pair \<open>(z, c)\<close>, for whatever record.\<close>

definition resolutions_of_pair :: "resolution list \<Rightarrow> string \<Rightarrow> string \<Rightarrow> resolution list" where
  "resolutions_of_pair hist z c = filter (\<lambda>x. res_zipCode x = z \<and> res_country x = c) hist"

text \<open>The record's derived fields are what the resolution returned.\<close>

definition derived_from :: "user \<Rightarrow> resolution \<Rightarrow> bool" where
  "derived_from r x =
     (case res_result x of
        Inl msg \<Rightarrow> False
      | Inr loc \<Rightarrow> country r = loc_country loc \<and> lat r = loc_lat loc \<and>
                   lon r = loc_lon loc \<and> timezone r = loc_timezone loc)"

definition geo_consistent :: "state \<Rightarrow> bool" where
  "geo_consistent s =
     (\<forall>uid r. users s uid = Some r \<longrightarrow>
        (\<exists>x. last_resolution (resolutions s) uid (zipCode r) = Some x \<and> derived_from r x))"

section \<open>Example requests\<close>

text \<open>
  A resolver that knows two zip codes (and answers with the country code in capitals,
  whatever the spelling in the request), a stored record, and three environments with a fault.
\<close>

definition env_ok :: env where
  "env_ok = \<lparr>geo_get = (\<lambda>z c.
       if z = ''94105'' then Inr \<lparr>geo_name = ''San Francisco'', geo_lat = 3778 / 100,
                                  geo_lon = - 12239 / 100, geo_country = ''US''\<rparr>
       else if z = ''10001'' then Inr \<lparr>geo_name = ''New York'', geo_lat = 4075 / 100,
                                  geo_lon = - 7399 / 100, geo_country = ''US''\<rparr>
       else Inl ''Request failed with status code 404''),
     weather_get = (\<lambda>la lo. if la = 3778 / 100 then Inr ''America/Los_Angeles''
                            else Inr ''America/New_York''),
     push_key = ''-Nk1'',
     now = (\<lambda>k. ''2024-05-02T10:00:00.000Z''),
     once_fault = None, write_fault = None\<rparr>"

definition env_store_down :: env where
  "env_store_down = env_ok\<lparr>write_fault := Some ''PERMISSION_DENIED: Permission denied''\<rparr>"

definition env_geo_down :: env where
  "env_geo_down = env_ok\<lparr>geo_get := (\<lambda>z c. Inl ''Network Error'')\<rparr>"

definition env_read_down :: env where
  "env_read_down = env_ok\<lparr>once_fault := Some ''PERMISSION_DENIED: Permission denied''\<rparr>"

definition ana :: user where
  "ana = \<lparr>id_user = ''-Nk1'', name = ''Ana'', zipCode = ''94105'', country = ''US'',
          lat = 3778 / 100, lon = - 12239 / 100, timezone = ''America/Los_Angeles'',
          createdAt = ''2024-05-01T09:00:00.000Z'', updatedAt = ''2024-05-01T09:00:00.000Z''\<rparr>"

definition db_ana :: store where
  "db_ana = Map.empty(''-Nk1'' \<mapsto> ana)"

definition patch :: "string option \<Rightarrow> string option \<Rightarrow> string option \<Rightarrow> req_body" where
  "patch n z c = \<lparr>body_name = n, body_zipCode = z, body_country = c\<rparr>"

text \<open>The scenario: create Ana in 94105, then move her to 10001.\<close>

definition s_created :: state where
  "s_created = step env_ok (Create (patch (Some ''Ana'') (Some ''94105'') None)) init"

definition s_moved :: state where
  "s_moved = step env_ok (Put ''-Nk1'' (patch None (Some ''10001'') None)) s_created"

text \<open>The same creation, with the country written in small letters.\<close>

definition s_lower :: state where
  "s_lower = step env_ok (Create (patch (Some ''Ana'') (Some ''94105'') (Some ''us''))) init"

section \<open>Properties of the handlers\<close>

lemmas ex_defs = env_ok_def env_store_down_def env_geo_down_def env_read_down_def ana_def
  db_ana_def patch_def

lemmas handler_defs = post_users_def put_users_def put_write_def apply_updates_def
  truthy_def Let_def

lemma getLocationData_fails:
  assumes "geo_get e z (default_US c) = Inl m \<or>
           (geo_get e z (default_US c) = Inr g \<and> weather_get e (geo_lat g) (geo_lon g) = Inl m)"
  shows "getLocationData e z c = Inl ''Failed to fetch location data''"
  using assms by (auto simp: getLocationData_def)

text \<open>The PUT handler once it has read the record.\<close>

lemma put_users_read:
  assumes "once_fault e = None" and "db uid = Some r"
  shows "put_users e db uid b =
    (let u = \<lparr>upd_name = (if truthy (body_name b) then the (body_name b) else name r),
              upd_updatedAt = now e 0, upd_zipCode = None, upd_lat = None, upd_lon = None,
              upd_timezone = None, upd_country = None\<rparr>
     in if truthy (body_zipCode b) \<and> the (body_zipCode b) \<noteq> zipCode r then
          (case getLocationData e (the (body_zipCode b)) (Some (default_US (body_country b))) of
             Inl msg \<Rightarrow>
               \<lparr>response = Response 500 (ErrorBody msg
                  (Some ''Failed to update user. Please check your input.'')),
                store_after = db,
                resolver_calls = [(the (body_zipCode b), default_US (body_country b))],
                store_writes = []\<rparr>
           | Inr loc \<Rightarrow>
               put_write e db uid r
                 (u\<lparr>upd_zipCode := Some (the (body_zipCode b)), upd_lat := Some (loc_lat loc),
                    upd_lon := Some (loc_lon loc), upd_timezone := Some (loc_timezone loc),
                    upd_country := Some (loc_country loc)\<rparr>)
                 [(the (body_zipCode b), default_US (body_country b))])
        else put_write e db uid r u [])"
  using assms by (simp add: put_users_def Let_def)

lemma getLocationData_env_ok_94105:
  "getLocationData env_ok ''94105'' (Some c) =
     Inr \<lparr>loc_name = ''San Francisco'', loc_lat = 3778 / 100, loc_lon = - 12239 / 100,
          loc_country = ''US'', loc_timezone = ''America/Los_Angeles''\<rparr>"
  by (simp add: getLocationData_def env_ok_def)

lemma getLocationData_env_ok_10001:
  "getLocationData env_ok ''10001'' (Some c) =
     Inr \<lparr>loc_name = ''New York'', loc_lat = 4075 / 100, loc_lon = - 7399 / 100,
          loc_country = ''US'', loc_timezone = ''America/New_York''\<rparr>"
  by (simp add: getLocationData_def env_ok_def)

section \<open>Creation\<close>

text \<open>
  C4. A create request in which name or zipCode is absent or empty is answered 400
  (the validation error); the handler calls the resolver not at all, sends no write to the
  store, and the store is as it was.
\<close>

theorem post_users_validation:
  assumes "body_name b = None \<or> body_name b = Some [] \<or>
           body_zipCode b = None \<or> body_zipCode b = Some []"
  shows "post_users e db b =
           \<lparr>response = Response 400 (ErrorBody ''Name and zipCode are required'' None),
            store_after = db, resolver_calls = [], store_writes = []\<rparr>"
  using assms by (auto simp: post_users_def truthy_def Let_def)

text \<open>An empty name with a good zip code, on a store that holds Ana.\<close>

theorem post_users_validation_witness:
  "post_users env_ok db_ana (patch (Some []) (Some ''94105'') None) =
     \<lparr>response = Response 400 (ErrorBody ''Name and zipCode are required'' None),
      store_after = db_ana, resolver_calls = [], store_writes = []\<rparr>"
proof -
  have h: "body_name (patch (Some []) (Some ''94105'') None) = Some []"
    by (simp add: patch_def)
  note t = post_users_validation [where b = "patch (Some []) (Some ''94105'') None"
      and e = env_ok and db = db_ana]
  from t h show ?thesis by simp
qed

text \<open>
  A valid create request whose resolution succeeds, while the store rejects the write:
  the answer is 500, not 201, and no record is stored.
\<close>

theorem post_users_store_rejects_counterexample:
  "body_name (patch (Some ''Ana'') (Some ''94105'') None) = Some ''Ana'' \<and>
   body_zipCode (patch (Some ''Ana'') (Some ''94105'') None) = Some ''94105'' \<and>
   getLocationData env_store_down ''94105'' (Some ''US'') =
     Inr \<lparr>loc_name = ''San Francisco'', loc_lat = 3778 / 100, loc_lon = - 12239 / 100,
          loc_country = ''US'', loc_timezone = ''America/Los_Angeles''\<rparr> \<and>
   resolver_calls (post_users env_store_down Map.empty (patch (Some ''Ana'') (Some ''94105'') None)) =
     [(''94105'', ''US'')] \<and>
   response (post_users env_store_down Map.empty (patch (Some ''Ana'') (Some ''94105'') None)) =
     Response 500 (ErrorBody ''PERMISSION_DENIED: Permission denied''
       (Some ''Failed to create user. Please check the zip code and try again.'')) \<and>
   store_after (post_users env_store_down Map.empty (patch (Some ''Ana'') (Some ''94105'') None)) ''-Nk1''
     = None"
  by (simp add: ex_defs getLocationData_def default_US_def post_users_def truthy_def Let_def)

text \<open>
  C3, amended. For a create request with non-empty name and zipCode for which the
  resolver succeeds, the resolver is called exactly once, with the request's zip code and
  the request's country (US when the request has none), and one write is sent: the new
  record under the key just generated. The record carries that key as identifier, the
  request's name and zip code, and the country, latitude, longitude and timezone the
  resolver returned. When the store accepts the write, the record is stored under the key
  and the answer is 201 with the full record; when the store rejects it, the answer is 500
  and the store is as it was.
\<close>

theorem post_users_created:
  assumes "body_name b = Some nm" and "nm \<noteq> []"
    and "body_zipCode b = Some z" and "z \<noteq> []"
    and "getLocationData e z (Some (case body_country b of None \<Rightarrow> ''US'' | Some c \<Rightarrow> c)) = Inr loc"
    and "r = \<lparr>id_user = push_key e, name = nm, zipCode = z, country = loc_country loc,
              lat = loc_lat loc, lon = loc_lon loc, timezone = loc_timezone loc,
              createdAt = now e 0, updatedAt = now e 1\<rparr>"
  shows "resolver_calls (post_users e db b) =
           [(z, case body_country b of None \<Rightarrow> ''US'' | Some c \<Rightarrow> c)] \<and>
         store_writes (post_users e db b) = [Set (push_key e) r] \<and>
         (write_fault e = None \<longrightarrow>
            response (post_users e db b) = Response 201 (UserBody r) \<and>
            store_after (post_users e db b) = db(push_key e \<mapsto> r)) \<and>
         (\<forall>m. write_fault e = Some m \<longrightarrow>
            response (post_users e db b) =
              Response 500 (ErrorBody m
                (Some ''Failed to create user. Please check the zip code and try again.'')) \<and>
            store_after (post_users e db b) = db)"
  using assms
  by (cases "write_fault e") (simp_all add: post_users_def truthy_def Let_def default_US_def)

text \<open>
  Ana is created in 94105 with country "us": the resolver is asked for (94105, us) and
  answers with San Francisco, US. Without a country, it is asked for (94105, US).
\<close>

theorem post_users_created_witness:
  "resolver_calls (post_users env_ok Map.empty (patch (Some ''Ana'') (Some ''94105'') (Some ''us''))) =
     [(''94105'', ''us'')] \<and>
   resolver_calls (post_users env_ok Map.empty (patch (Some ''Ana'') (Some ''94105'') None)) =
     [(''94105'', ''US'')] \<and>
   response (post_users env_ok Map.empty (patch (Some ''Ana'') (Some ''94105'') (Some ''us''))) =
     Response 201 (UserBody \<lparr>id_user = ''-Nk1'', name = ''Ana'', zipCode = ''94105'',
       country = ''US'', lat = 3778 / 100, lon = - 12239 / 100,
       timezone = ''America/Los_Angeles'', createdAt = ''2024-05-02T10:00:00.000Z'',
       updatedAt = ''2024-05-02T10:00:00.000Z''\<rparr>) \<and>
   store_after (post_users env_ok Map.empty (patch (Some ''Ana'') (Some ''94105'') (Some ''us''))) ''-Nk1'' =
     Some \<lparr>id_user = ''-Nk1'', name = ''Ana'', zipCode = ''94105'',
       country = ''US'', lat = 3778 / 100, lon = - 12239 / 100,
       timezone = ''America/Los_Angeles'', createdAt = ''2024-05-02T10:00:00.000Z'',
       updatedAt = ''2024-05-02T10:00:00.000Z''\<rparr>"
proof -
  let ?loc = "\<lparr>loc_name = ''San Francisco'', loc_lat = 3778 / 100, loc_lon = - 12239 / 100,
          loc_country = ''US'', loc_timezone = ''America/Los_Angeles''\<rparr>"
  let ?r = "\<lparr>id_user = ''-Nk1'', name = ''Ana'', zipCode = ''94105'',
       country = ''US'', lat = 3778 / 100, lon = - 12239 / 100,
       timezone = ''America/Los_Angeles'', createdAt = ''2024-05-02T10:00:00.000Z'',
       updatedAt = ''2024-05-02T10:00:00.000Z''\<rparr>"
  have h1: "body_name (patch (Some ''Ana'') (Some ''94105'') (Some ''us'')) = Some ''Ana''"
    "body_zipCode (patch (Some ''Ana'') (Some ''94105'') (Some ''us'')) = Some ''94105''"
    "getLocationData env_ok ''94105''
       (Some (case body_country (patch (Some ''Ana'') (Some ''94105'') (Some ''us'')) of
                None \<Rightarrow> ''US'' | Some c \<Rightarrow> c)) = Inr ?loc"
    "(case body_country (patch (Some ''Ana'') (Some ''94105'') (Some ''us'')) of
                None \<Rightarrow> ''US'' | Some c \<Rightarrow> c) = ''us''"
    by (simp_all add: patch_def getLocationData_env_ok_94105)
  have h2: "body_name (patch (Some ''Ana'') (Some ''94105'') None) = Some ''Ana''"
    "body_zipCode (patch (Some ''Ana'') (Some ''94105'') None) = Some ''94105''"
    "getLocationData env_ok ''94105''
       (Some (case body_country (patch (Some ''Ana'') (Some ''94105'') None) of
                None \<Rightarrow> ''US'' | Some c \<Rightarrow> c)) = Inr ?loc"
    "(case body_country (patch (Some ''Ana'') (Some ''94105'') None) of
                None \<Rightarrow> ''US'' | Some c \<Rightarrow> c) = ''US''"
    by (simp_all add: patch_def getLocationData_env_ok_94105)
  have h: "''Ana'' \<noteq> []" "''94105'' \<noteq> []" "write_fault env_ok = None"
    "?r = \<lparr>id_user = push_key env_ok, name = ''Ana'', zipCode = ''94105'',
           country = loc_country ?loc, lat = loc_lat ?loc, lon = loc_lon ?loc,
           timezone = loc_timezone ?loc, createdAt = now env_ok 0, updatedAt = now env_ok 1\<rparr>"
    "push_key env_ok = ''-Nk1''"
    by (simp_all add: env_ok_def)
  note t1 = post_users_created [where b = "patch (Some ''Ana'') (Some ''94105'') (Some ''us'')"
      and nm = "''Ana''" and z = "''94105''" and e = env_ok and db = Map.empty
      and loc = ?loc and r = ?r, OF h1(1) h(1) h1(2) h(2) h1(3) h(4)]
  note t2 = post_users_created [where b = "patch (Some ''Ana'') (Some ''94105'') None"
      and nm = "''Ana''" and z = "''94105''" and e = env_ok and db = Map.empty
      and loc = ?loc and r = ?r, OF h2(1) h(1) h2(2) h(2) h2(3) h(4)]
  from t1 t2 h(3,5) h1(4) h2(4) show ?thesis by simp
qed

section \<open>Failure of the resolver\<close>

text \<open>
  The upstream error says "Network Error"; the resolver's error and both 500 answers say
  "Failed to fetch location data". The upstream message is not in them.
\<close>

theorem resolver_message_counterexample:
  "geo_get env_geo_down ''94105'' ''US'' = Inl ''Network Error'' \<and>
   getLocationData env_geo_down ''94105'' (Some ''US'') = Inl ''Failed to fetch location data'' \<and>
   response (post_users env_geo_down Map.empty (patch (Some ''Ana'') (Some ''94105'') None)) =
     Response 500 (ErrorBody ''Failed to fetch location data''
       (Some ''Failed to create user. Please check the zip code and try again.'')) \<and>
   response (put_users env_geo_down db_ana ''-Nk1'' (patch None (Some ''10001'') None)) =
     Response 500 (ErrorBody ''Failed to fetch location data''
       (Some ''Failed to update user. Please check your input.''))"
  by (simp add: ex_defs getLocationData_def default_US_def post_users_def
      put_users_def truthy_def Let_def)

text \<open>
  C6, amended. When either external call of the resolver fails, whatever the upstream
  message, the resolver fails with the fixed message "Failed to fetch location data", and
  the create and update handlers answer 500 with that fixed message and their own fixed
  details.
\<close>

theorem resolver_failure_fixed_message:
  assumes "geo_get e z (default_US (body_country b)) = Inl m \<or>
           (geo_get e z (default_US (body_country b)) = Inr g \<and>
            weather_get e (geo_lat g) (geo_lon g) = Inl m)"
    and "body_zipCode b = Some z" and "z \<noteq> []"
  shows "getLocationData e z (Some (default_US (body_country b))) =
           Inl ''Failed to fetch location data'' \<and>
         (truthy (body_name b) \<longrightarrow>
            response (post_users e db b) =
              Response 500 (ErrorBody ''Failed to fetch location data''
                (Some ''Failed to create user. Please check the zip code and try again.''))) \<and>
         (once_fault e = None \<and> db uid = Some r \<and> z \<noteq> zipCode r \<longrightarrow>
            response (put_users e db uid b) =
              Response 500 (ErrorBody ''Failed to fetch location data''
                (Some ''Failed to update user. Please check your input.'')))"
proof -
  have f: "getLocationData e z (Some (default_US (body_country b))) =
           Inl ''Failed to fetch location data''"
    using assms(1) getLocationData_fails [of e z "Some (default_US (body_country b))" m g]
    by (simp add: default_US_def)
  show ?thesis
    using f assms(2,3)
    by (simp add: post_users_def put_users_read truthy_def Let_def)
qed

text \<open>The geocoding request fails with "Network Error", in a creation and in an update.\<close>

theorem resolver_failure_fixed_message_witness:
  "getLocationData env_geo_down ''10001'' (Some ''US'') = Inl ''Failed to fetch location data'' \<and>
   response (post_users env_geo_down db_ana (patch (Some ''Bob'') (Some ''10001'') None)) =
     Response 500 (ErrorBody ''Failed to fetch location data''
       (Some ''Failed to create user. Please check the zip code and try again.'')) \<and>
   response (put_users env_geo_down db_ana ''-Nk1'' (patch (Some ''Bob'') (Some ''10001'') None)) =
     Response 500 (ErrorBody ''Failed to fetch location data''
       (Some ''Failed to update user. Please check your input.''))"
proof -
  have h: "geo_get env_geo_down ''10001''
             (default_US (body_country (patch (Some ''Bob'') (Some ''10001'') None))) =
           Inl ''Network Error''"
    "body_zipCode (patch (Some ''Bob'') (Some ''10001'') None) = Some ''10001''" "''10001'' \<noteq> []"
    "truthy (body_name (patch (Some ''Bob'') (Some ''10001'') None))"
    "default_US (body_country (patch (Some ''Bob'') (Some ''10001'') None)) = ''US''"
    "once_fault env_geo_down = None" "db_ana ''-Nk1'' = Some ana" "''10001'' \<noteq> zipCode ana"
    by (simp_all add: ex_defs default_US_def truthy_def)
  note t = resolver_failure_fixed_message [where e = env_geo_down and z = "''10001''"
      and b = "patch (Some ''Bob'') (Some ''10001'') None" and m = "''Network Error''"
      and db = db_ana and uid = "''-Nk1''" and r = ana]
  from t h show ?thesis by auto
qed

section \<open>Update\<close>

text \<open>
  Three patches on Ana's record, each with a zipCode that is present and differs from
  the stored 94105. With the empty string, the resolver is not called, the answer is 200
  and the zip code stays. With 10001 and the read of the record rejected, the resolver is
  not called and the answer is 500. With 10001 and the write rejected, the resolver is
  called, the answer is 500 and the zip code stays.
\<close>

theorem put_users_zip_unresolved_counterexample:
  "db_ana ''-Nk1'' = Some ana \<and> [] \<noteq> zipCode ana \<and> ''10001'' \<noteq> zipCode ana \<and>
   body_zipCode (patch None (Some []) None) = Some [] \<and>
   resolver_calls (put_users env_ok db_ana ''-Nk1'' (patch None (Some []) None)) = [] \<and>
   status (response (put_users env_ok db_ana ''-Nk1'' (patch None (Some []) None))) = 200 \<and>
   map_option zipCode (store_after (put_users env_ok db_ana ''-Nk1'' (patch None (Some []) None)) ''-Nk1'')
     = Some ''94105'' \<and>
   body_zipCode (patch None (Some ''10001'') None) = Some ''10001'' \<and>
   resolver_calls (put_users env_read_down db_ana ''-Nk1'' (patch None (Some ''10001'') None)) = [] \<and>
   status (response (put_users env_read_down db_ana ''-Nk1'' (patch None (Some ''10001'') None))) = 500 \<and>
   resolver_calls (put_users env_store_down db_ana ''-Nk1'' (patch None (Some ''10001'') None)) =
     [(''10001'', ''US'')] \<and>
   status (response (put_users env_store_down db_ana ''-Nk1'' (patch None (Some ''10001'') None))) = 500 \<and>
   store_after (put_users env_store_down db_ana ''-Nk1'' (patch None (Some ''10001'') None)) ''-Nk1''
     = Some ana"
  by (simp add: ex_defs handler_defs getLocationData_def default_US_def)

text \<open>
  C1, amended. For a stored record that the handler has read (the read of the store
  did not fail) and an update request whose zipCode is present, non-empty and different
  from the stored zip code, the handler calls the resolver exactly once, with the new zip
  code and the request's country (US when the request has none). If the resolution
  succeeds, the handler sends exactly one write, and that write carries zipCode, country,
  latitude, longitude and timezone together: the new zip code and the country, coordinates
  and timezone the resolver returned. When the store accepts the write, the record has all
  five replaced at once (with name and updatedAt); when the store rejects it, the store is
  as it was. If the resolution fails, no write is sent and the store is as it was. So no
  state shows only some of the five replaced.
\<close>

theorem put_users_zip_changed:
  assumes "db uid = Some r" and "once_fault e = None"
    and "body_zipCode b = Some z" and "z \<noteq> []" and "z \<noteq> zipCode r"
    and "nm = (case body_name b of None \<Rightarrow> name r | Some n \<Rightarrow> if n = [] then name r else n)"
  shows "resolver_calls (put_users e db uid b) =
           [(z, case body_country b of None \<Rightarrow> ''US'' | Some c \<Rightarrow> c)] \<and>
         (\<forall>loc. getLocationData e z
                  (Some (case body_country b of None \<Rightarrow> ''US'' | Some c \<Rightarrow> c)) = Inr loc \<longrightarrow>
            store_writes (put_users e db uid b) =
              [Update uid \<lparr>upd_name = nm, upd_updatedAt = now e 0, upd_zipCode = Some z,
                           upd_lat = Some (loc_lat loc), upd_lon = Some (loc_lon loc),
                           upd_timezone = Some (loc_timezone loc),
                           upd_country = Some (loc_country loc)\<rparr>] \<and>
            (write_fault e = None \<longrightarrow>
               status (response (put_users e db uid b)) = 200 \<and>
               store_after (put_users e db uid b) =
                 db(uid \<mapsto> r\<lparr>name := nm, updatedAt := now e 0, zipCode := z,
                              lat := loc_lat loc, lon := loc_lon loc,
                              timezone := loc_timezone loc, country := loc_country loc\<rparr>)) \<and>
            (write_fault e \<noteq> None \<longrightarrow>
               status (response (put_users e db uid b)) = 500 \<and>
               store_after (put_users e db uid b) = db)) \<and>
         ((\<exists>m. getLocationData e z
                  (Some (case body_country b of None \<Rightarrow> ''US'' | Some c \<Rightarrow> c)) = Inl m) \<longrightarrow>
            status (response (put_users e db uid b)) = 500 \<and>
            store_writes (put_users e db uid b) = [] \<and>
            store_after (put_users e db uid b) = db)"
  using assms
  by (auto simp: put_users_read truthy_def Let_def put_write_def apply_updates_def
      default_US_def split: sum.splits option.splits)

text \<open>
  Ana moves from 94105 to 10001, the patch naming the country "us": one resolver call,
  for (10001, us), one write with the five keys, and the five fields are New York's.
\<close>

theorem put_users_zip_changed_witness:
  "resolver_calls (put_users env_ok db_ana ''-Nk1'' (patch None (Some ''10001'') (Some ''us''))) =
     [(''10001'', ''us'')] \<and>
   store_writes (put_users env_ok db_ana ''-Nk1'' (patch None (Some ''10001'') (Some ''us''))) =
     [Update ''-Nk1'' \<lparr>upd_name = ''Ana'', upd_updatedAt = ''2024-05-02T10:00:00.000Z'',
        upd_zipCode = Some ''10001'', upd_lat = Some (4075 / 100),
        upd_lon = Some (- 7399 / 100), upd_timezone = Some ''America/New_York'',
        upd_country = Some ''US''\<rparr>] \<and>
   store_after (put_users env_ok db_ana ''-Nk1'' (patch None (Some ''10001'') (Some ''us''))) =
     db_ana(''-Nk1'' \<mapsto> ana\<lparr>name := ''Ana'', updatedAt := ''2024-05-02T10:00:00.000Z'',
               zipCode := ''10001'', lat := 4075 / 100, lon := - 7399 / 100,
               timezone := ''America/New_York'', country := ''US''\<rparr>)"
proof -
  let ?b = "patch None (Some ''10001'') (Some ''us'')"
  let ?loc = "\<lparr>loc_name = ''New York'', loc_lat = 4075 / 100, loc_lon = - 7399 / 100,
          loc_country = ''US'', loc_timezone = ''America/New_York''\<rparr>"
  have h: "db_ana ''-Nk1'' = Some ana" "once_fault env_ok = None"
    "body_zipCode ?b = Some ''10001''" "''10001'' \<noteq> []" "''10001'' \<noteq> zipCode ana"
    "''Ana'' = (case body_name ?b of None \<Rightarrow> name ana
                | Some n \<Rightarrow> if n = [] then name ana else n)"
    by (simp_all add: ex_defs)
  have g: "(case body_country ?b of None \<Rightarrow> ''US'' | Some c \<Rightarrow> c) = ''us''"
    "getLocationData env_ok ''10001'' (Some ''us'') = Inr ?loc"
    "write_fault env_ok = None" "now env_ok 0 = ''2024-05-02T10:00:00.000Z''"
    by (simp_all add: patch_def getLocationData_env_ok_10001) (simp_all add: env_ok_def)
  note t = put_users_zip_changed [where db = db_ana and uid = "''-Nk1''" and r = ana
      and e = env_ok and b = ?b and z = "''10001''" and nm = "''Ana''", OF h]
  from t g show ?thesis by simp
qed

text \<open>
  Ana's own zip code repeated in the patch. When the store rejects the write, the answer
  is 500 and updatedAt is still the old instant, not the current one; the same when the
  read of the record is rejected.
\<close>

theorem put_users_same_zip_stale_counterexample:
  "db_ana ''-Nk1'' = Some ana \<and>
   body_zipCode (patch None (Some ''94105'') None) = Some (zipCode ana) \<and>
   now env_store_down 0 = ''2024-05-02T10:00:00.000Z'' \<and>
   status (response (put_users env_store_down db_ana ''-Nk1'' (patch None (Some ''94105'') None))) = 500 \<and>
   map_option updatedAt
     (store_after (put_users env_store_down db_ana ''-Nk1'' (patch None (Some ''94105'') None)) ''-Nk1'')
     = Some ''2024-05-01T09:00:00.000Z'' \<and>
   now env_read_down 0 = ''2024-05-02T10:00:00.000Z'' \<and>
   status (response (put_users env_read_down db_ana ''-Nk1'' (patch None (Some ''94105'') None))) = 500 \<and>
   map_option updatedAt
     (store_after (put_users env_read_down db_ana ''-Nk1'' (patch None (Some ''94105'') None)) ''-Nk1'')
     = Some ''2024-05-01T09:00:00.000Z''"
  by (simp add: ex_defs handler_defs)

text \<open>
  C2, amended. For a stored record and an update request whose zipCode equals the
  stored zip code, the handler never calls the resolver, and the record's latitude,
  longitude and timezone are what they were. When the read of the record succeeds, the
  handler sends exactly one write, which sets name and updatedAt only, updatedAt to the
  current instant. When the read and the write both succeed, the answer is 200 and the
  record's updatedAt is the current instant, nothing but name and updatedAt having changed;
  when either fails, the answer is 500 and the store, updatedAt included, is as it was.
\<close>

theorem put_users_same_zip:
  assumes "db uid = Some r" and "body_zipCode b = Some (zipCode r)"
    and "nm = (case body_name b of None \<Rightarrow> name r | Some n \<Rightarrow> if n = [] then name r else n)"
  shows "resolver_calls (put_users e db uid b) = [] \<and>
         (\<exists>r'. store_after (put_users e db uid b) uid = Some r' \<and>
               lat r' = lat r \<and> lon r' = lon r \<and> timezone r' = timezone r) \<and>
         (once_fault e = None \<longrightarrow>
            store_writes (put_users e db uid b) =
              [Update uid \<lparr>upd_name = nm, upd_updatedAt = now e 0, upd_zipCode = None,
                           upd_lat = None, upd_lon = None, upd_timezone = None,
                           upd_country = None\<rparr>]) \<and>
         (once_fault e = None \<and> write_fault e = None \<longrightarrow>
            status (response (put_users e db uid b)) = 200 \<and>
            store_after (put_users e db uid b) =
              db(uid \<mapsto> r\<lparr>name := nm, updatedAt := now e 0\<rparr>)) \<and>
         (once_fault e \<noteq> None \<or> write_fault e \<noteq> None \<longrightarrow>
            status (response (put_users e db uid b)) = 500 \<and>
            store_after (put_users e db uid b) = db)"
  using assms
  by (auto simp: put_users_def truthy_def Let_def put_write_def apply_updates_def
      split: option.splits)

text \<open>Ana is renamed, with her own zip code repeated in the patch.\<close>

theorem put_users_same_zip_witness:
  "resolver_calls (put_users env_ok db_ana ''-Nk1'' (patch (Some ''Ana Maria'') (Some ''94105'') None)) = [] \<and>
   status (response (put_users env_ok db_ana ''-Nk1'' (patch (Some ''Ana Maria'') (Some ''94105'') None))) = 200 \<and>
   store_after (put_users env_ok db_ana ''-Nk1'' (patch (Some ''Ana Maria'') (Some ''94105'') None)) =
     db_ana(''-Nk1'' \<mapsto> ana\<lparr>name := ''Ana Maria'', updatedAt := ''2024-05-02T10:00:00.000Z''\<rparr>) \<and>
   updatedAt ana = ''2024-05-01T09:00:00.000Z''"
proof -
  let ?b = "patch (Some ''Ana Maria'') (Some ''94105'') None"
  have h: "db_ana ''-Nk1'' = Some ana" "body_zipCode ?b = Some (zipCode ana)"
    "''Ana Maria'' = (case body_name ?b of None \<Rightarrow> name ana
                | Some n \<Rightarrow> if n = [] then name ana else n)"
    by (simp_all add: ex_defs)
  have g: "once_fault env_ok = None" "write_fault env_ok = None"
    "now env_ok 0 = ''2024-05-02T10:00:00.000Z''"
    "updatedAt ana = ''2024-05-01T09:00:00.000Z''"
    by (simp_all add: ex_defs)
  note t = put_users_same_zip [where db = db_ana and uid = "''-Nk1''" and r = ana
      and e = env_ok and b = ?b and nm = "''Ana Maria''", OF h]
  from t g show ?thesis by simp
qed

text \<open>
  C7. For a stored record and an update request: when the resolution fails, or the
  store rejects the write, the update is answered 500 and the store, and so the record, is
  exactly as before. Nothing is tried twice, and after a failed resolution no write is
  sent.
\<close>

theorem put_users_failure_untouched:
  assumes "db uid = Some r"
    and "(body_zipCode b = Some z \<and> z \<noteq> [] \<and> z \<noteq> zipCode r \<and>
          getLocationData e z (Some (default_US (body_country b))) = Inl m) \<or>
         write_fault e = Some m"
  shows "status (response (put_users e db uid b)) = 500 \<and>
         store_after (put_users e db uid b) = db \<and>
         store_after (put_users e db uid b) uid = Some r \<and>
         length (resolver_calls (put_users e db uid b)) \<le> 1 \<and>
         length (store_writes (put_users e db uid b)) \<le> 1 \<and>
         (write_fault e = None \<longrightarrow> store_writes (put_users e db uid b) = [])"
  using assms
  by (auto simp: put_users_def truthy_def Let_def put_write_def
      split: option.splits sum.splits)

text \<open>The same patch, once with the store rejecting the write, once with the resolver down.\<close>

theorem put_users_failure_untouched_witness:
  "status (response (put_users env_store_down db_ana ''-Nk1'' (patch (Some ''Bob'') (Some ''10001'') None))) = 500 \<and>
   store_after (put_users env_store_down db_ana ''-Nk1'' (patch (Some ''Bob'') (Some ''10001'') None)) ''-Nk1'' = Some ana \<and>
   status (response (put_users env_geo_down db_ana ''-Nk1'' (patch (Some ''Bob'') (Some ''10001'') None))) = 500 \<and>
   store_after (put_users env_geo_down db_ana ''-Nk1'' (patch (Some ''Bob'') (Some ''10001'') None)) ''-Nk1'' = Some ana \<and>
   store_writes (put_users env_geo_down db_ana ''-Nk1'' (patch (Some ''Bob'') (Some ''10001'') None)) = []"
proof -
  have h: "db_ana ''-Nk1'' = Some ana"
    "write_fault env_store_down = Some ''PERMISSION_DENIED: Permission denied''"
    "write_fault env_geo_down = None"
    "body_zipCode (patch (Some ''Bob'') (Some ''10001'') None) = Some ''10001''"
    "''10001'' \<noteq> []" "''10001'' \<noteq> zipCode ana"
    "getLocationData env_geo_down ''10001''
       (Some (default_US (body_country (patch (Some ''Bob'') (Some ''10001'') None)))) =
     Inl ''Failed to fetch location data''"
    by (simp_all add: ex_defs getLocationData_def default_US_def)
  note t1 = put_users_failure_untouched [where db = db_ana and uid = "''-Nk1''" and r = ana
      and e = env_store_down and b = "patch (Some ''Bob'') (Some ''10001'') None"
      and m = "''PERMISSION_DENIED: Permission denied''"]
  note t2 = put_users_failure_untouched [where db = db_ana and uid = "''-Nk1''" and r = ana
      and e = env_geo_down and b = "patch (Some ''Bob'') (Some ''10001'') None"
      and z = "''10001''" and m = "''Failed to fetch location data''"]
  from t1 t2 h show ?thesis by auto
qed

text \<open>
  C8. After a successful update of a stored record, whatever the patch, the record's
  identifier and createdAt are what they were.
\<close>

theorem put_users_id_createdAt:
  assumes "db uid = Some r" and "status (response (put_users e db uid b)) = 200"
  shows "\<exists>r'. store_after (put_users e db uid b) uid = Some r' \<and>
              id_user r' = id_user r \<and> createdAt r' = createdAt r"
  using assms
  by (auto simp: put_users_def truthy_def Let_def put_write_def apply_updates_def
      split: option.splits sum.splits if_splits)

text \<open>A patch that changes name, zip code and country at once.\<close>

theorem put_users_id_createdAt_witness:
  "status (response (put_users env_ok db_ana ''-Nk1'' (patch (Some ''Bob'') (Some ''10001'') (Some ''US'')))) = 200 \<and>
   map_option id_user
     (store_after (put_users env_ok db_ana ''-Nk1'' (patch (Some ''Bob'') (Some ''10001'') (Some ''US''))) ''-Nk1'')
     = Some ''-Nk1'' \<and>
   map_option createdAt
     (store_after (put_users env_ok db_ana ''-Nk1'' (patch (Some ''Bob'') (Some ''10001'') (Some ''US''))) ''-Nk1'')
     = Some ''2024-05-01T09:00:00.000Z''"
proof -
  have s: "status (response (put_users env_ok db_ana ''-Nk1''
             (patch (Some ''Bob'') (Some ''10001'') (Some ''US'')))) = 200"
    by (simp add: ex_defs handler_defs getLocationData_def default_US_def)
  have h: "db_ana ''-Nk1'' = Some ana" "id_user ana = ''-Nk1''"
    "createdAt ana = ''2024-05-01T09:00:00.000Z''"
    by (simp_all add: ex_defs)
  note t = put_users_id_createdAt [where db = db_ana and uid = "''-Nk1''" and r = ana
      and e = env_ok and b = "patch (Some ''Bob'') (Some ''10001'') (Some ''US'')"]
  from t s h show ?thesis by auto
qed

text \<open>
  A patch whose name is the empty string: the update is answered 200 and the stored name
  is still Ana, not the empty string the patch provides.
\<close>

theorem put_users_empty_name_counterexample:
  "db_ana ''-Nk1'' = Some ana \<and> body_name (patch (Some []) None None) = Some [] \<and>
   status (response (put_users env_ok db_ana ''-Nk1'' (patch (Some []) None None))) = 200 \<and>
   map_option name (store_after (put_users env_ok db_ana ''-Nk1'' (patch (Some []) None None)) ''-Nk1'')
     = Some ''Ana''"
  by (simp add: ex_defs handler_defs)

text \<open>
  C9, amended. After a successful update of a stored record: if the patch provides a
  non-empty name, the record's name is that name; if the patch provides no name, or the
  empty string, the record's name is unchanged.
\<close>

theorem put_users_name:
  assumes "db uid = Some r" and "status (response (put_users e db uid b)) = 200"
  shows "\<exists>r'. store_after (put_users e db uid b) uid = Some r' \<and>
              (\<forall>n. body_name b = Some n \<and> n \<noteq> [] \<longrightarrow> name r' = n) \<and>
              (body_name b = None \<or> body_name b = Some [] \<longrightarrow> name r' = name r)"
  using assms
  by (auto simp: put_users_def truthy_def Let_def put_write_def apply_updates_def
      split: option.splits sum.splits if_splits)

text \<open>One patch names Bob; another has no name, only a country.\<close>

theorem put_users_name_witness:
  "status (response (put_users env_ok db_ana ''-Nk1'' (patch (Some ''Bob'') None None))) = 200 \<and>
   map_option name (store_after (put_users env_ok db_ana ''-Nk1'' (patch (Some ''Bob'') None None)) ''-Nk1'')
     = Some ''Bob'' \<and>
   status (response (put_users env_ok db_ana ''-Nk1'' (patch None None (Some ''CA'')))) = 200 \<and>
   map_option name (store_after (put_users env_ok db_ana ''-Nk1'' (patch None None (Some ''CA''))) ''-Nk1'')
     = Some ''Ana''"
proof -
  have s: "status (response (put_users env_ok db_ana ''-Nk1'' (patch (Some ''Bob'') None None))) = 200"
    "status (response (put_users env_ok db_ana ''-Nk1'' (patch None None (Some ''CA'')))) = 200"
    by (simp_all add: ex_defs handler_defs)
  have h: "db_ana ''-Nk1'' = Some ana" "name ana = ''Ana''"
    "body_name (patch (Some ''Bob'') None None) = Some ''Bob''" "''Bob'' \<noteq> []"
    "body_name (patch None None (Some ''CA'')) = None"
    by (simp_all add: ex_defs)
  note t1 = put_users_name [where db = db_ana and uid = "''-Nk1''" and r = ana
      and e = env_ok and b = "patch (Some ''Bob'') None None"]
  note t2 = put_users_name [where db = db_ana and uid = "''-Nk1''" and r = ana
      and e = env_ok and b = "patch None None (Some ''CA'')"]
  from t1 t2 s h show ?thesis by auto
qed

text \<open>
  C10. For a stored record and an update request whose zipCode is absent or equal to
  the stored zip code, the country of the patch plays no part: the resolver is not called,
  the stored country is unchanged, and the whole outcome is the same whatever country the
  patch carries.
\<close>

theorem put_users_country_ignored:
  assumes "db uid = Some r"
    and "body_zipCode b = None \<or> body_zipCode b = Some (zipCode r)"
  shows "resolver_calls (put_users e db uid b) = [] \<and>
         (\<exists>r'. store_after (put_users e db uid b) uid = Some r' \<and> country r' = country r) \<and>
         put_users e db uid (b\<lparr>body_country := c\<rparr>) = put_users e db uid b"
  using assms
  by (auto simp: put_users_def truthy_def Let_def put_write_def apply_updates_def
      split: option.splits)

text \<open>Ana's own zip code with country CA: nothing is resolved, and her country is still US.\<close>

theorem put_users_country_ignored_witness:
  "resolver_calls (put_users env_ok db_ana ''-Nk1'' (patch None (Some ''94105'') (Some ''CA''))) = [] \<and>
   map_option country (store_after (put_users env_ok db_ana ''-Nk1'' (patch None (Some ''94105'') (Some ''CA''))) ''-Nk1'')
     = Some ''US'' \<and>
   put_users env_ok db_ana ''-Nk1'' (patch None (Some ''94105'') (Some ''CA'')) =
   put_users env_ok db_ana ''-Nk1'' (patch None (Some ''94105'') None)"
proof -
  have h: "db_ana ''-Nk1'' = Some ana" "country ana = ''US''"
    "body_zipCode (patch None (Some ''94105'') None) = Some (zipCode ana)"
    "body_zipCode (patch None (Some ''94105'') (Some ''CA'')) = Some (zipCode ana)"
    "(patch None (Some ''94105'') None)\<lparr>body_country := Some ''CA''\<rparr> =
       patch None (Some ''94105'') (Some ''CA'')"
    by (simp_all add: ex_defs)
  note t1 = put_users_country_ignored [where db = db_ana and uid = "''-Nk1''" and r = ana
      and e = env_ok and b = "patch None (Some ''94105'') None" and c = "Some ''CA''"]
  note t2 = put_users_country_ignored [where db = db_ana and uid = "''-Nk1''" and r = ana
      and e = env_ok and b = "patch None (Some ''94105'') (Some ''CA'')" and c = "Some ''CA''"]
  from t1 t2 h show ?thesis by auto
qed

section \<open>The invariant of the store\<close>

lemma derived_from_iff:
  "derived_from r x \<longleftrightarrow>
     (\<exists>loc. res_result x = Inr loc \<and> country r = loc_country loc \<and> lat r = loc_lat loc \<and>
            lon r = loc_lon loc \<and> timezone r = loc_timezone loc)"
  by (cases "res_result x") (simp_all add: derived_from_def)

lemma last_resolution_Cons:
  "last_resolution (x # hist) uid z =
     (if res_for x = uid \<and> res_zipCode x = z then Some x else last_resolution hist uid z)"
  by (simp add: last_resolution_def)

lemma geo_consistent_init: "geo_consistent init"
  by (simp add: geo_consistent_def init_def)

lemma geo_consistent_create:
  assumes "geo_consistent s" and "users s (push_key e) = None"
  shows "geo_consistent (step e (Create b) s)"
  using assms
  unfolding geo_consistent_def
  by (auto simp: post_users_def Let_def record_calls_def last_resolution_Cons derived_from_iff
      split: sum.splits option.splits if_splits)

lemma geo_consistent_put:
  assumes "geo_consistent s"
  shows "geo_consistent (step e (Put uid b) s)"
  using assms
  unfolding geo_consistent_def
  by (auto simp: put_users_def put_write_def apply_updates_def Let_def record_calls_def
      last_resolution_Cons derived_from_iff
      split: sum.splits option.splits if_splits)

lemma geo_consistent_delete:
  assumes "geo_consistent s"
  shows "geo_consistent (step e (Delete uid) s)"
  using assms
  unfolding geo_consistent_def
  by (auto simp: delete_users_def Let_def split: option.splits if_splits)

lemma s_created_eq:
  "s_created =
     \<lparr>users = Map.empty(''-Nk1'' \<mapsto> ana\<lparr>createdAt := ''2024-05-02T10:00:00.000Z'',
                                          updatedAt := ''2024-05-02T10:00:00.000Z''\<rparr>),
      resolutions =
        [\<lparr>res_for = ''-Nk1'', res_zipCode = ''94105'', res_country = ''US'',
          res_result = Inr \<lparr>loc_name = ''San Francisco'', loc_lat = 3778 / 100,
            loc_lon = - 12239 / 100, loc_country = ''US'',
            loc_timezone = ''America/Los_Angeles''\<rparr>\<rparr>]\<rparr>"
  by (simp add: s_created_def init_def record_calls_def getLocationData_def default_US_def
      handler_defs ex_defs)

lemma s_lower_eq:
  "s_lower =
     \<lparr>users = Map.empty(''-Nk1'' \<mapsto> ana\<lparr>createdAt := ''2024-05-02T10:00:00.000Z'',
                                          updatedAt := ''2024-05-02T10:00:00.000Z''\<rparr>),
      resolutions =
        [\<lparr>res_for = ''-Nk1'', res_zipCode = ''94105'', res_country = ''us'',
          res_result = Inr \<lparr>loc_name = ''San Francisco'', loc_lat = 3778 / 100,
            loc_lon = - 12239 / 100, loc_country = ''US'',
            loc_timezone = ''America/Los_Angeles''\<rparr>\<rparr>]\<rparr>"
  by (simp add: s_lower_def init_def record_calls_def getLocationData_def default_US_def
      handler_defs ex_defs)

lemma s_moved_eq:
  "s_moved =
     \<lparr>users = Map.empty(''-Nk1'' \<mapsto> ana\<lparr>createdAt := ''2024-05-02T10:00:00.000Z'',
                updatedAt := ''2024-05-02T10:00:00.000Z'', zipCode := ''10001'',
                lat := 4075 / 100, lon := - 7399 / 100, timezone := ''America/New_York''\<rparr>),
      resolutions =
        [\<lparr>res_for = ''-Nk1'', res_zipCode = ''10001'', res_country = ''US'',
          res_result = Inr \<lparr>loc_name = ''New York'', loc_lat = 4075 / 100,
            loc_lon = - 7399 / 100, loc_country = ''US'',
            loc_timezone = ''America/New_York''\<rparr>\<rparr>,
         \<lparr>res_for = ''-Nk1'', res_zipCode = ''94105'', res_country = ''US'',
          res_result = Inr \<lparr>loc_name = ''San Francisco'', loc_lat = 3778 / 100,
            loc_lon = - 12239 / 100, loc_country = ''US'',
            loc_timezone = ''America/Los_Angeles''\<rparr>\<rparr>]\<rparr>"
  unfolding s_moved_def s_created_eq
  by (simp add: record_calls_def getLocationData_def default_US_def handler_defs ex_defs)

text \<open>
  Ana is created with country "us". The stored record has zip code 94105 and country
  "US", the country the resolver returned; the one resolution ever made was of the pair
  (94105, us), and of the record's own pair (94105, US) there is none.
\<close>

theorem stored_pair_never_resolved_counterexample:
  "reachable s_lower \<and>
   map_option zipCode (users s_lower ''-Nk1'') = Some ''94105'' \<and>
   map_option country (users s_lower ''-Nk1'') = Some ''US'' \<and>
   map_option timezone (users s_lower ''-Nk1'') = Some ''America/Los_Angeles'' \<and>
   map res_zipCode (resolutions s_lower) = [''94105''] \<and>
   map res_country (resolutions s_lower) = [''us''] \<and>
   resolutions_of_pair (resolutions s_lower) ''94105'' ''US'' = []"
proof -
  have "fresh_key env_ok (Create (patch (Some ''Ana'') (Some ''94105'') (Some ''us''))) init"
    by (simp add: init_def)
  then have "reachable s_lower"
    unfolding s_lower_def by (rule reachable_step [OF reachable_init])
  then show ?thesis
    by (simp add: s_lower_eq resolutions_of_pair_def ana_def)
qed

text \<open>
  C5, amended. In every state reachable from the empty store by create, update and
  delete operations, each creation under a key no stored record has, every stored
  record's country, latitude, longitude and timezone are what the resolver returned in the
  most recent resolution made for that record with the record's current zipCode. The
  country passed to that resolution is the country of the request (default US); the stored
  country is the one the resolver returned.
\<close>

theorem reachable_geo_consistent:
  assumes "reachable s"
  shows "geo_consistent s"
  using assms
proof (induction rule: reachable.induct)
  case reachable_init
  show ?case by (rule geo_consistent_init)
next
  case (reachable_step s e req)
  then show ?case
    by (cases req) (simp_all only: fresh_key.simps geo_consistent_create geo_consistent_put
        geo_consistent_delete)
qed

text \<open>
  Ana is created in 94105 and moved to 10001: the state is reachable, and her record's
  fields are those of the newest resolution made for her with zip code 10001.
\<close>

theorem reachable_geo_consistent_witness:
  "reachable s_moved \<and> geo_consistent s_moved \<and>
   map_option zipCode (users s_moved ''-Nk1'') = Some ''10001'' \<and>
   map_option timezone (users s_moved ''-Nk1'') = Some ''America/New_York'' \<and>
   map_option res_result (last_resolution (resolutions s_moved) ''-Nk1'' ''10001'') =
     Some (Inr \<lparr>loc_name = ''New York'', loc_lat = 4075 / 100, loc_lon = - 7399 / 100,
                loc_country = ''US'', loc_timezone = ''America/New_York''\<rparr>)"
proof -
  have "fresh_key env_ok (Create (patch (Some ''Ana'') (Some ''94105'') None)) init"
    by (simp add: init_def)
  then have c: "reachable s_created"
    unfolding s_created_def by (rule reachable_step [OF reachable_init])
  have "fresh_key env_ok (Put ''-Nk1'' (patch None (Some ''10001'') None)) s_created"
    by simp
  then have m: "reachable s_moved"
    unfolding s_moved_def by (rule reachable_step [OF c])
  have v: "map_option zipCode (users s_moved ''-Nk1'') = Some ''10001''"
    "map_option timezone (users s_moved ''-Nk1'') = Some ''America/New_York''"
    "map_option res_result (last_resolution (resolutions s_moved) ''-Nk1'' ''10001'') =
       Some (Inr \<lparr>loc_name = ''New York'', loc_lat = 4075 / 100, loc_lon = - 7399 / 100,
                  loc_country = ''US'', loc_timezone = ''America/New_York''\<rparr>)"
    by (simp_all add: s_moved_eq last_resolution_Cons)
  from reachable_geo_consistent [OF m] m v show ?thesis
    by simp
qed

end
